theory Spec2Isabelle
  imports Main "HOL-Library.Word"
begin

section \<open>Python values, strings and bytes\<close>

text \<open>
  A Python \<open>str\<close> is a sequence of Unicode code points; a \<open>bytes\<close> object is a
  sequence of octets. The values the client passes around without looking at them
  (\<open>pin_number\<close>, \<open>numbering\<close>, \<open>time_ms\<close>) are Python objects; the model carries the
  two documented kinds, integers (unbounded) and strings.
\<close>

type_synonym byte = "8 word"
type_synonym pystr = "nat list"

datatype pyval = PyInt int | PyStr pystr

text \<open>A string literal of the source, as its code points.\<close>

definition lit :: "string \<Rightarrow> pystr" where
  "lit s = map of_char s"

subsection \<open>Exceptions\<close>

text \<open>
  \<open>OSError e\<close> is what the socket layer raises, carrying the errno of the failed
  system call. \<open>UnicodeEncodeError\<close> is raised by \<open>str.encode\<close>, \<open>ValueError\<close> by the
  conversion of an integer to its decimal string.
  \<open>ConnectionError e\<close> is the distinct open-failure error of the specification,
  wrapping a transport error \<open>e\<close>; no statement of the source constructs it.
\<close>

datatype errno = EBADF | EPIPE | EISCONN | ECONNREFUSED | ETIMEDOUT | ENETUNREACH

datatype exn = OSError errno | UnicodeEncodeError | ValueError | ConnectionError exn

subsection \<open>Integers as decimal strings\<close>

text \<open>
  The decimal digits of a natural number, most significant first, and the decimal
  string of an integer: the digits of its absolute value, after a minus sign when it
  is negative.
\<close>

fun digits :: "nat \<Rightarrow> pystr" where
  "digits n = (if n < 10 then [48 + n] else digits (n div 10) @ [48 + n mod 10])"

definition decimal :: "int \<Rightarrow> pystr" where
  "decimal i = (if i < 0 then 45 # digits (nat (- i)) else digits (nat i))"

text \<open>
  \<open>str(i)\<close>, and with it \<open>format(i, "")\<close>: the interpreter refuses to convert an
  integer of more than \<open>sys.int_info.default_max_str_digits\<close> digits (4300, the sign not
  counted) and raises \<open>ValueError\<close>.
\<close>

definition int_max_str_digits :: nat where
  "int_max_str_digits = 4300"

definition str_int :: "int \<Rightarrow> exn + pystr" where
  "str_int i =
     (if int_max_str_digits < length (digits (nat \<bar>i\<bar>)) then Inl ValueError
      else Inr (decimal i))"

text \<open>
  A replacement field \<open>{x}\<close> of an f-string is \<open>format(x, "")\<close>: the string itself
  for a \<open>str\<close>, \<open>str(x)\<close> for an \<open>int\<close>.
\<close>

fun format_val :: "pyval \<Rightarrow> exn + pystr" where
  "format_val (PyInt i) = str_int i"
| "format_val (PyStr s) = Inr s"

subsection \<open>\<open>str.encode()\<close>: UTF-8, strict\<close>

text \<open>
  \<open>command.encode()\<close> is called with no arguments: the encoding is UTF-8 and the error
  handler is \<open>strict\<close>, so a surrogate code point (U+D800 to U+DFFF) raises
  \<open>UnicodeEncodeError\<close>. Code points of a Python string are below \<open>0x110000\<close>.
\<close>

definition utf8_char :: "nat \<Rightarrow> exn + byte list" where
  "utf8_char c =
     (if c < 0x80 then Inr [of_nat c]
      else if c < 0x800 then Inr [of_nat (0xC0 + c div 64), of_nat (0x80 + c mod 64)]
      else if 0xD800 \<le> c \<and> c \<le> 0xDFFF then Inl UnicodeEncodeError
      else if c < 0x10000 then
        Inr [of_nat (0xE0 + c div 4096), of_nat (0x80 + (c div 64) mod 64),
             of_nat (0x80 + c mod 64)]
      else
        Inr [of_nat (0xF0 + c div 262144), of_nat (0x80 + (c div 4096) mod 64),
             of_nat (0x80 + (c div 64) mod 64), of_nat (0x80 + c mod 64)])"

fun encode :: "pystr \<Rightarrow> exn + byte list" where
  "encode [] = Inr []"
| "encode (c # cs) =
     (case utf8_char c of
        Inl e \<Rightarrow> Inl e
      | Inr bs \<Rightarrow> (case encode cs of Inl e \<Rightarrow> Inl e | Inr rest \<Rightarrow> Inr (bs @ rest)))"

text \<open>
  The ASCII encoding the specification's wire format names (\<open>str.encode("ascii")\<close>):
  one byte per code point, defined only when every code point is below 128.
\<close>

fun ascii_encode :: "pystr \<Rightarrow> exn + byte list" where
  "ascii_encode [] = Inr []"
| "ascii_encode (c # cs) =
     (if c < 0x80 then
        (case ascii_encode cs of Inl e \<Rightarrow> Inl e | Inr rest \<Rightarrow> Inr (of_nat c # rest))
      else Inl UnicodeEncodeError)"

section \<open>The socket layer\<close>

text \<open>
  Socket objects live in a store and are shared by reference. A socket records its
  status and, in order, every byte \<open>sendall\<close> has handed to the stream. The outcome of
  a TCP handshake is the environment's: \<open>net w (host, port)\<close> is \<open>None\<close> when the
  handshake succeeds and \<open>Some e\<close> when it fails with errno \<open>e\<close>.
\<close>

type_synonym ref = nat

datatype sock_status = Unconnected | Connected | Closed

record sock =
  status :: sock_status
  sent :: "byte list"

record world =
  socks :: "ref \<Rightarrow> sock"
  next_ref :: ref
  net :: "pystr \<times> int \<Rightarrow> errno option"

type_synonym 'a res = "(exn + 'a) \<times> world"

text \<open>\<open>socket.socket(AF_INET, SOCK_STREAM)\<close>: a fresh, unconnected socket object.\<close>

definition socket_socket :: "world \<Rightarrow> ref \<times> world" where
  "socket_socket w =
     (next_ref w,
      w\<lparr>socks := (socks w)(next_ref w := \<lparr>status = Unconnected, sent = []\<rparr>),
        next_ref := Suc (next_ref w)\<rparr>)"

text \<open>\<open>sock.connect((host, port))\<close>: blocks until the handshake succeeds or fails.\<close>

definition connect :: "ref \<Rightarrow> pystr \<times> int \<Rightarrow> world \<Rightarrow> unit res" where
  "connect s addr w =
     (case status (socks w s) of
        Closed \<Rightarrow> (Inl (OSError EBADF), w)
      | Connected \<Rightarrow> (Inl (OSError EISCONN), w)
      | Unconnected \<Rightarrow>
          (case net w addr of
             Some e \<Rightarrow> (Inl (OSError e), w)
           | None \<Rightarrow> (Inr (), w\<lparr>socks := (socks w)(s := (socks w s)\<lparr>status := Connected\<rparr>)\<rparr>)))"

definition append_sent :: "ref \<Rightarrow> byte list \<Rightarrow> world \<Rightarrow> world" where
  "append_sent s bs w =
     w\<lparr>socks := (socks w)(s := (socks w s)\<lparr>sent := sent (socks w s) @ bs\<rparr>)\<rparr>"

text \<open>
  \<open>sock.sendall(data)\<close>: the whole buffer goes to the stream of a connected socket; a
  closed socket object raises \<open>OSError\<close> (bad file descriptor), a socket that was never
  connected raises \<open>OSError\<close> (broken pipe).
\<close>

definition sendall :: "ref \<Rightarrow> byte list \<Rightarrow> world \<Rightarrow> unit res" where
  "sendall s bs w =
     (case status (socks w s) of
        Connected \<Rightarrow> (Inr (), append_sent s bs w)
      | Closed \<Rightarrow> (Inl (OSError EBADF), w)
      | Unconnected \<Rightarrow> (Inl (OSError EPIPE), w))"

text \<open>\<open>sock.close()\<close>: marks the socket object closed; it never raises.\<close>

definition socket_close :: "ref \<Rightarrow> world \<Rightarrow> unit res" where
  "socket_close s w = (Inr (), w\<lparr>socks := (socks w)(s := (socks w s)\<lparr>status := Closed\<rparr>)\<rparr>)"

section \<open>The client: \<open>remoteio_client.py\<close>\<close>

text \<open>
  Both classes have a field \<open>client_socket\<close>; the selectors are written with the
  class name, \<open>RemoteServer.client_socket\<close> and \<open>RemotePin.client_socket\<close>.
\<close>

record RemoteServer =
  server_ip :: pystr
  server_port :: int
  client_socket :: ref

record RemotePin =
  client_socket :: ref
  pin_number :: pyval
  numbering :: pyval
  time_ms :: pyval

subsection \<open>\<open>RemotePin\<close>\<close>

text \<open>\<open>RemotePin.__init__\<close>: four assignments.\<close>

definition RemotePin_init :: "ref \<Rightarrow> pyval \<Rightarrow> pyval \<Rightarrow> world \<Rightarrow> RemotePin res" where
  "RemotePin_init sock pin_no num w =
     (Inr \<lparr>RemotePin.client_socket = sock, pin_number = pin_no, numbering = num, time_ms = PyInt 0\<rparr>, w)"

text \<open>
  \<open>__create_command(self, command, time_ms=0)\<close>: an argument left out is \<open>None\<close> here
  and takes the default \<open>0\<close>. The f-string raises what the conversion of \<open>time_ms\<close>
  raises.
\<close>

definition create_command :: "RemotePin \<Rightarrow> pystr \<Rightarrow> pyval option \<Rightarrow> exn + pystr" where
  "create_command self command time_arg =
     (let t = (case time_arg of None \<Rightarrow> PyInt 0 | Some v \<Rightarrow> v)
      in case format_val t of
           Inl e \<Rightarrow> Inl e
         | Inr ts \<Rightarrow> Inr (command @ lit '' '' @ ts))"

text \<open>
  \<open>__send_command(self, command)\<close>: the f-string is built (its fields converted from
  left to right), encoded, and the bytes are handed to \<open>sendall\<close>. The argument of
  \<open>sendall\<close> is evaluated before the call, so a conversion or encoding error is raised
  before anything reaches the socket.
\<close>

definition send_command :: "RemotePin \<Rightarrow> pystr \<Rightarrow> world \<Rightarrow> unit res" where
  "send_command self command w =
     (case format_val (numbering self) of
        Inl e \<Rightarrow> (Inl e, w)
      | Inr num \<Rightarrow>
          (case format_val (pin_number self) of
             Inl e \<Rightarrow> (Inl e, w)
           | Inr pn \<Rightarrow>
               (let command' = num @ lit '' '' @ pn @ lit '' '' @ command
                in case encode command' of
                     Inl e \<Rightarrow> (Inl e, w)
                   | Inr bs \<Rightarrow> sendall (RemotePin.client_socket self) bs w)))"

definition on :: "RemotePin \<Rightarrow> pyval option \<Rightarrow> world \<Rightarrow> RemotePin res" where
  "on self time_arg w =
     (let t = (case time_arg of None \<Rightarrow> PyInt 0 | Some v \<Rightarrow> v)
      in case create_command self (lit ''on'') (Some t) of
           Inl e \<Rightarrow> (Inl e, w)
         | Inr cmd \<Rightarrow>
             (case send_command self cmd w of
                (Inl e, w') \<Rightarrow> (Inl e, w')
              | (Inr _, w') \<Rightarrow> (Inr self, w')))"

definition blink :: "RemotePin \<Rightarrow> world \<Rightarrow> RemotePin res" where
  "blink self w =
     (case create_command self (lit ''blink'') None of
        Inl e \<Rightarrow> (Inl e, w)
      | Inr cmd \<Rightarrow>
          (case send_command self cmd w of
             (Inl e, w') \<Rightarrow> (Inl e, w')
           | (Inr _, w') \<Rightarrow> (Inr self, w')))"

definition pulse :: "RemotePin \<Rightarrow> world \<Rightarrow> RemotePin res" where
  "pulse self w =
     (case create_command self (lit ''pulse'') None of
        Inl e \<Rightarrow> (Inl e, w)
      | Inr cmd \<Rightarrow>
          (case send_command self cmd w of
             (Inl e, w') \<Rightarrow> (Inl e, w')
           | (Inr _, w') \<Rightarrow> (Inr self, w')))"

definition off :: "RemotePin \<Rightarrow> world \<Rightarrow> RemotePin res" where
  "off self w =
     (case create_command self (lit ''off'') None of
        Inl e \<Rightarrow> (Inl e, w)
      | Inr cmd \<Rightarrow>
          (case send_command self cmd w of
             (Inl e, w') \<Rightarrow> (Inl e, w')
           | (Inr _, w') \<Rightarrow> (Inr self, w')))"

subsection \<open>\<open>RemoteServer\<close>\<close>

text \<open>
  \<open>RemoteServer.__init__\<close>: the socket is created and connected inside the
  constructor; an exception of \<open>connect\<close> is not caught, so it leaves the constructor
  as it was raised and no object is returned.
\<close>

definition RemoteServer_init :: "pystr \<Rightarrow> int \<Rightarrow> world \<Rightarrow> RemoteServer res" where
  "RemoteServer_init ip port w =
     (case socket_socket w of
        (s, w1) \<Rightarrow>
          (case connect s (ip, port) w1 of
             (Inl e, w2) \<Rightarrow> (Inl e, w2)
           | (Inr _, w2) \<Rightarrow>
               (Inr \<lparr>server_ip = ip, server_port = port,
                     RemoteServer.client_socket = s\<rparr>, w2)))"

text \<open>\<open>pin(self, pin_number, numbering='b')\<close>.\<close>

definition pin :: "RemoteServer \<Rightarrow> pyval \<Rightarrow> pyval option \<Rightarrow> world \<Rightarrow> RemotePin res" where
  "pin self pin_no num_arg w =
     (let num = (case num_arg of None \<Rightarrow> PyStr (lit ''b'') | Some v \<Rightarrow> v)
      in RemotePin_init (RemoteServer.client_socket self) pin_no num w)"

definition close :: "RemoteServer \<Rightarrow> world \<Rightarrow> unit res" where
  "close self w = socket_close (RemoteServer.client_socket self) w"

subsection \<open>Actions and chains of calls\<close>

text \<open>
  The four action methods under one name, and a chain
  \<open>p.a\<^sub>1().a\<^sub>2()...\<close>: each call is made on the object the previous call returned,
  and an exception ends the chain.
\<close>

datatype action = On "pyval option" | Blink | Pulse | Off

fun perform :: "action \<Rightarrow> RemotePin \<Rightarrow> world \<Rightarrow> RemotePin res" where
  "perform (On time_arg) p w = on p time_arg w"
| "perform Blink p w = blink p w"
| "perform Pulse p w = pulse p w"
| "perform Off p w = off p w"

fun chain :: "action list \<Rightarrow> RemotePin \<Rightarrow> world \<Rightarrow> RemotePin res" where
  "chain [] p w = (Inr p, w)"
| "chain (a # as) p w =
     (case perform a p w of
        (Inl e, w') \<Rightarrow> (Inl e, w')
      | (Inr p', w') \<Rightarrow> chain as p' w')"

subsection \<open>The wire format in the specification's words\<close>

text \<open>
  The specification gives the wire string of an action as
  \<open>"<numbering> <pin_number> <action> <time_ms>"\<close>, where \<open><time_ms>\<close> is the argument
  of \<open>on\<close> (0 when left out) and 0 for \<open>blink\<close>, \<open>pulse\<close> and \<open>off\<close>. The functions
  below follow that sentence; the wire string exists when each of its three fields
  has a string. The theorems compare them with the methods above.
\<close>

definition time_token :: "action \<Rightarrow> pyval" where
  "time_token a = (case a of On (Some v) \<Rightarrow> v | _ \<Rightarrow> PyInt 0)"

definition action_name :: "action \<Rightarrow> pystr" where
  "action_name a =
     (case a of On _ \<Rightarrow> lit ''on'' | Blink \<Rightarrow> lit ''blink'' | Pulse \<Rightarrow> lit ''pulse''
      | Off \<Rightarrow> lit ''off'')"

definition wire_format :: "RemotePin \<Rightarrow> action \<Rightarrow> exn + pystr" where
  "wire_format p a =
     (case format_val (numbering p) of
        Inl e \<Rightarrow> Inl e
      | Inr num \<Rightarrow>
          (case format_val (pin_number p) of
             Inl e \<Rightarrow> Inl e
           | Inr pn \<Rightarrow>
               (case format_val (time_token a) of
                  Inl e \<Rightarrow> Inl e
                | Inr ts \<Rightarrow>
                    Inr (num @ lit '' '' @ pn @ lit '' '' @ action_name a @ lit '' '' @ ts))))"

text \<open>
  The open contract in the specification's words: a handshake that does not succeed
  fails construction with a distinct \<open>ConnectionError\<close> that wraps the underlying
  transport error.
\<close>

definition spec_open :: "pystr \<Rightarrow> int \<Rightarrow> world \<Rightarrow> RemoteServer res" where
  "spec_open ip port w =
     (case RemoteServer_init ip port w of
        (Inl e, w') \<Rightarrow> (Inl (ConnectionError e), w')
      | (Inr srv, w') \<Rightarrow> (Inr srv, w'))"

text \<open>
  The wire bytes an operation produced on socket \<open>s\<close>: what the stream of \<open>s\<close> holds
  in the world after, beyond what it held in the world before.
\<close>

definition appended :: "ref \<Rightarrow> world \<Rightarrow> world \<Rightarrow> byte list" where
  "appended s w w' = drop (length (sent (socks w s))) (sent (socks w' s))"

subsection \<open>Reading a decimal token back\<close>



subsection \<open>Example objects\<close>

text \<open>
  A network in which only \<open>127.0.0.1:9000\<close> accepts connections and every other
  address times out; the world before any socket exists; the server object and the
  world after \<open>RemoteServer("127.0.0.1", 9000)\<close>; the handle of \<open>pin(8, 'b')\<close>.
\<close>

definition example_net :: "pystr \<times> int \<Rightarrow> errno option" where
  "example_net a = (if a = (lit ''127.0.0.1'', 9000) then None else Some ETIMEDOUT)"

definition example_world :: world where
  "example_world =
     \<lparr>socks = (\<lambda>_. \<lparr>status = Closed, sent = []\<rparr>), next_ref = 0, net = example_net\<rparr>"

definition connected_world :: world where
  "connected_world =
     \<lparr>socks = (\<lambda>_. \<lparr>status = Closed, sent = []\<rparr>)(0 := \<lparr>status = Connected, sent = []\<rparr>),
      next_ref = 1, net = example_net\<rparr>"

definition example_server :: RemoteServer where
  "example_server =
     \<lparr>server_ip = lit ''127.0.0.1'', server_port = 9000, RemoteServer.client_socket = 0\<rparr>"

definition pin_b8 :: RemotePin where
  "pin_b8 =
     \<lparr>RemotePin.client_socket = 0, pin_number = PyInt 8, numbering = PyStr (lit ''b''),
      time_ms = PyInt 0\<rparr>"

text \<open>The handle of \<open>pin(8, U+00E9)\<close>: a numbering of one code point, U+00E9.\<close>

definition pin_accent :: RemotePin where
  "pin_accent =
     \<lparr>RemotePin.client_socket = 0, pin_number = PyInt 8, numbering = PyStr [233],
      time_ms = PyInt 0\<rparr>"

text \<open>
  The world after \<open>remote_server.close()\<close>, and the handle of \<open>pin(8, '\ud800')\<close>: a
  numbering of one surrogate code point.
\<close>

definition closed_world :: world where
  "closed_world =
     \<lparr>socks = (\<lambda>_. \<lparr>status = Closed, sent = []\<rparr>)(0 := \<lparr>status = Closed, sent = []\<rparr>),
      next_ref = 1, net = example_net\<rparr>"

definition pin_surrogate :: RemotePin where
  "pin_surrogate =
     \<lparr>RemotePin.client_socket = 0, pin_number = PyInt 8, numbering = PyStr [0xD800],
      time_ms = PyInt 0\<rparr>"

text \<open>
  The handle of \<open>pin(10 ** 4300, 'b')\<close>: a pin number of 4301 digits, one more than
  the conversion to a string accepts.
\<close>

definition pin_huge :: RemotePin where
  "pin_huge =
     \<lparr>RemotePin.client_socket = 0, pin_number = PyInt (10 ^ int_max_str_digits),
      numbering = PyStr (lit ''b''), time_ms = PyInt 0\<rparr>"

section \<open>Encoding lemmas\<close>

declare digits.simps [simp del]

lemma encode_append:
  "encode (xs @ ys) =
     (case encode xs of
        Inl e \<Rightarrow> Inl e
      | Inr a \<Rightarrow> (case encode ys of Inl e \<Rightarrow> Inl e | Inr b \<Rightarrow> Inr (a @ b)))"
  by (induction xs) (auto split: sum.splits)

lemma utf8_char_ascii: "c < 128 \<Longrightarrow> utf8_char c = Inr [of_nat c]"
  by (simp add: utf8_char_def)

lemma encode_ascii: "list_all (\<lambda>c. c < 128) s \<Longrightarrow> encode s = Inr (map of_nat s)"
  by (induction s) (simp_all add: utf8_char_ascii)

lemma encode_error: "encode s = Inl e \<Longrightarrow> e = UnicodeEncodeError"
  by (induction s arbitrary: e) (auto simp: utf8_char_def split: sum.splits if_splits)

lemma ascii_encode_eq:
  "ascii_encode s =
     (if list_all (\<lambda>c. c < 128) s then Inr (map of_nat s) else Inl UnicodeEncodeError)"
  by (induction s) auto

lemma encode_wire_string:
  assumes "encode num = Inr nb" and "list_all (\<lambda>c. c < 128) rest"
  shows "encode (num @ rest) = Inr (nb @ map of_nat rest)"
  using assms by (simp add: encode_append encode_ascii)

lemma encode_ascii_suffix:
  assumes "encode (xs @ ys) = Inr bs" and "list_all (\<lambda>c. c < 128) ys"
  shows "\<exists>pre. encode xs = Inr pre \<and> bs = pre @ map of_nat ys"
  using assms by (auto simp: encode_append encode_ascii split: sum.splits)

lemma unat_byte_of_nat: "c < 256 \<Longrightarrow> unat (of_nat c :: byte) = c"
  by (simp add: unat_of_nat)

section \<open>Decimal strings\<close>

lemma digits_nonempty: "digits n \<noteq> []"
  by (subst digits.simps) simp

lemma digits_range: "list_all (\<lambda>c. 48 \<le> c \<and> c \<le> 57) (digits n)"
proof (induction n rule: digits.induct)
  case (1 n)
  show ?case
  proof (cases "n < 10")
    case True
    then show ?thesis by (subst digits.simps) simp
  next
    case False
    have "n mod 10 < 10" by simp
    then have "48 + n mod 10 \<le> 57" by linarith
    with 1 False show ?thesis by (subst digits.simps) simp
  qed
qed

lemma digits_ascii: "list_all (\<lambda>c. c < 128) (digits n)"
proof -
  have "\<forall>c \<in> set (digits n). 48 \<le> c \<and> c \<le> 57"
    using digits_range [of n] by (simp only: list_all_iff)
  then have "\<forall>c \<in> set (digits n). c < 128" by auto
  then show ?thesis by (simp only: list_all_iff)
qed

lemma decimal_ascii: "list_all (\<lambda>c. c < 128) (decimal i)"
  by (simp add: decimal_def digits_ascii)

lemma decimal_nonempty: "decimal i \<noteq> []"
  by (simp add: decimal_def digits_nonempty)

lemma last_digits: "48 \<le> last (digits n) \<and> last (digits n) \<le> 57"
proof -
  have "last (digits n) \<in> set (digits n)" by (simp add: digits_nonempty)
  with digits_range [of n] show ?thesis by (simp only: list_all_iff)
qed

lemma last_decimal: "48 \<le> last (decimal i) \<and> last (decimal i) \<le> 57"
  using last_digits by (simp add: decimal_def digits_nonempty)




text \<open>The number of digits: more than \<open>k\<close> exactly from \<open>10 ^ k\<close> on.\<close>

lemma digits_length_gt: "10 ^ k \<le> n \<Longrightarrow> k < length (digits n)"
proof (induction k arbitrary: n)
  case 0
  have "digits n \<noteq> []" by (rule digits_nonempty)
  then show ?case by simp
next
  case (Suc k)
  have "(10::nat) \<le> 10 ^ Suc k" by simp
  with Suc.prems have big: "\<not> n < 10" by linarith
  from Suc.prems have "10 ^ k \<le> n div 10" by simp
  then have "k < length (digits (n div 10))" by (rule Suc.IH)
  with big show ?case by (subst digits.simps) simp
qed

lemma digits_length_le: "n < 10 ^ Suc k \<Longrightarrow> length (digits n) \<le> Suc k"
proof (induction k arbitrary: n)
  case 0
  then show ?case by (subst digits.simps) simp
next
  case (Suc k)
  show ?case
  proof (cases "n < 10")
    case True
    then show ?thesis by (subst digits.simps) simp
  next
    case False
    from Suc.prems have "n div 10 < 10 ^ Suc k"
      by (simp add: less_mult_imp_div_less mult.commute)
    then have "length (digits (n div 10)) \<le> Suc k" by (rule Suc.IH)
    with False show ?thesis by (subst digits.simps) simp
  qed
qed

lemma str_int_fits:
  "length (digits (nat \<bar>i\<bar>)) \<le> int_max_str_digits \<Longrightarrow> str_int i = Inr (decimal i)"
  by (simp add: str_int_def)

lemma str_int_exceeds:
  "int_max_str_digits < length (digits (nat \<bar>i\<bar>)) \<Longrightarrow> str_int i = Inl ValueError"
  by (simp add: str_int_def)

lemma str_int_error: "str_int i = Inl e \<Longrightarrow> e = ValueError"
  by (simp add: str_int_def split: if_splits)

lemma str_int_huge: "str_int (10 ^ int_max_str_digits) = Inl ValueError"
proof -
  have a: "nat \<bar>10 ^ int_max_str_digits :: int\<bar> = 10 ^ int_max_str_digits"
    by (simp add: nat_power_eq)
  have "int_max_str_digits < length (digits (10 ^ int_max_str_digits))"
    by (rule digits_length_gt) simp
  then have "int_max_str_digits < length (digits (nat \<bar>10 ^ int_max_str_digits :: int\<bar>))"
    by (simp only: a)
  then show ?thesis by (rule str_int_exceeds)
qed

lemma str_int_small:
  "str_int 0 = Inr (lit ''0'')" "str_int 8 = Inr (lit ''8'')"
  "str_int 2000 = Inr (lit ''2000'')" "str_int (- 5) = Inr (lit ''-5'')"
  by (simp_all add: str_int_def decimal_def digits.simps int_max_str_digits_def lit_def)

lemma format_val_error: "format_val v = Inl e \<Longrightarrow> e = ValueError"
  by (cases v) (auto dest: str_int_error)

section \<open>What an action does\<close>

lemma sent_append_sent: "sent (socks (append_sent s bs w) s) = sent (socks w s) @ bs"
  by (simp add: append_sent_def)



lemma appended_append_sent: "appended s w (append_sent s bs w) = bs"
  by (simp add: appended_def append_sent_def)

lemma appended_same: "appended s w w = []"
  by (simp add: appended_def)

text \<open>
  Every action method, in one equation. The wire string is built first: a field that
  has no string raises \<open>ValueError\<close>. It is then encoded: a string that has no
  encoding raises \<open>UnicodeEncodeError\<close>. Only then are the bytes handed to \<open>sendall\<close>,
  and the method returns \<open>self\<close> when \<open>sendall\<close> returns.
\<close>

lemma perform_eq:
  "perform a p w =
     (case wire_format p a of
        Inl e \<Rightarrow> (Inl e, w)
      | Inr s \<Rightarrow>
          (case encode s of
             Inl e \<Rightarrow> (Inl e, w)
           | Inr bs \<Rightarrow>
               (case status (socks w (RemotePin.client_socket p)) of
                  Connected \<Rightarrow> (Inr p, append_sent (RemotePin.client_socket p) bs w)
                | Closed \<Rightarrow> (Inl (OSError EBADF), w)
                | Unconnected \<Rightarrow> (Inl (OSError EPIPE), w))))"
proof -
  have on_eq: "on p t w =
      (case create_command p (lit ''on'') (Some (time_token (On t))) of
         Inl e \<Rightarrow> (Inl e, w)
       | Inr cmd \<Rightarrow>
           (case send_command p cmd w of
              (Inl e, w') \<Rightarrow> (Inl e, w')
            | (Inr _, w') \<Rightarrow> (Inr p, w')))" for t
    by (cases t) (simp_all add: on_def time_token_def)
  have cc: "create_command p c (Some (time_token a)) =
      (case format_val (time_token a) of Inl e \<Rightarrow> Inl e | Inr ts \<Rightarrow> Inr (c @ lit '' '' @ ts))"
    for c
    by (simp add: create_command_def)
  have cc0: "create_command p c None = create_command p c (Some (PyInt 0))" for c
    by (simp add: create_command_def)
  have run: "(case create_command p (action_name a) (Some (time_token a)) of
         Inl e \<Rightarrow> (Inl e, w)
       | Inr cmd \<Rightarrow>
           (case send_command p cmd w of
              (Inl e, w') \<Rightarrow> (Inl e, w')
            | (Inr _, w') \<Rightarrow> (Inr p, w'))) =
     (case wire_format p a of
        Inl e \<Rightarrow> (Inl e, w)
      | Inr s \<Rightarrow>
          (case encode s of
             Inl e \<Rightarrow> (Inl e, w)
           | Inr bs \<Rightarrow>
               (case status (socks w (RemotePin.client_socket p)) of
                  Connected \<Rightarrow> (Inr p, append_sent (RemotePin.client_socket p) bs w)
                | Closed \<Rightarrow> (Inl (OSError EBADF), w)
                | Unconnected \<Rightarrow> (Inl (OSError EPIPE), w))))"
    by (auto simp: cc send_command_def sendall_def wire_format_def
        dest: format_val_error split: sum.splits sock_status.splits)
  show ?thesis
  proof (cases a)
    case (On t)
    with run on_eq [of t] show ?thesis by (simp add: action_name_def)
  next
    case Blink
    with run show ?thesis by (simp add: blink_def cc0 action_name_def time_token_def)
  next
    case Pulse
    with run show ?thesis by (simp add: pulse_def cc0 action_name_def time_token_def)
  next
    case Off
    with run show ?thesis by (simp add: off_def cc0 action_name_def time_token_def)
  qed
qed



text \<open>
  What an action leaves alone: the status of every socket, the allocation counter and
  the network; and the same for a chain.
\<close>

lemma perform_frame:
  "status (socks (snd (perform a p w)) s) = status (socks w s)
   \<and> next_ref (snd (perform a p w)) = next_ref w
   \<and> net (snd (perform a p w)) = net w"
  by (simp add: perform_eq append_sent_def split: sum.splits sock_status.splits)

lemma chain_frame:
  "status (socks (snd (chain acts p w)) s) = status (socks w s)
   \<and> next_ref (snd (chain acts p w)) = next_ref w
   \<and> net (snd (chain acts p w)) = net w"
proof (induction acts arbitrary: p w)
  case Nil
  show ?case by simp
next
  case (Cons a acts)
  show ?case
  proof (cases "perform a p w")
    case (Pair r w1)
    have w1: "status (socks w1 s) = status (socks w s) \<and> next_ref w1 = next_ref w
        \<and> net w1 = net w"
      using perform_frame [of a p w s] Pair by simp
    show ?thesis
    proof (cases r)
      case (Inl e)
      with Pair w1 show ?thesis by simp
    next
      case (Inr q)
      with Pair have "chain (a # acts) p w = chain acts q w1" by simp
      with Cons.IH [of q w1] w1 show ?thesis by simp
    qed
  qed
qed

lemma wire_format_cong:
  "numbering q = numbering p \<Longrightarrow> pin_number q = pin_number p \<Longrightarrow>
   wire_format q a = wire_format p a"
  by (simp add: wire_format_def split: sum.splits)

text \<open>The wire string when its three fields have strings.\<close>

lemma wire_format_fields:
  assumes "format_val (numbering p) = Inr num" and "format_val (pin_number p) = Inr pn"
    and "format_val (time_token a) = Inr ts"
  shows "wire_format p a = Inr (num @ lit '' '' @ pn @ lit '' '' @ action_name a @ lit '' '' @ ts)"
  using assms by (simp add: wire_format_def)

text \<open>The example objects.\<close>

lemma example_open:
  "RemoteServer_init (lit ''127.0.0.1'') 9000 example_world =
     (Inr example_server, connected_world)"
  by (simp add: RemoteServer_init_def socket_socket_def connect_def example_world_def
      connected_world_def example_server_def example_net_def)

lemma example_pin:
  "pin example_server (PyInt 8) (Some (PyStr (lit ''b''))) connected_world =
     (Inr pin_b8, connected_world)"
  by (simp add: pin_def RemotePin_init_def example_server_def pin_b8_def)

lemma example_close: "close example_server connected_world = (Inr (), closed_world)"
  by (simp add: close_def socket_close_def example_server_def connected_world_def
      closed_world_def)

lemma example_pin_surrogate:
  "pin example_server (PyInt 8) (Some (PyStr [0xD800])) connected_world =
     (Inr pin_surrogate, connected_world)"
  by (simp add: pin_def RemotePin_init_def example_server_def pin_surrogate_def)

lemma example_pin_huge:
  "pin example_server (PyInt (10 ^ int_max_str_digits)) None connected_world =
     (Inr pin_huge, connected_world)"
  by (simp add: pin_def RemotePin_init_def example_server_def pin_huge_def)

lemma wire_format_b8:
  "wire_format pin_b8 (On (Some (PyInt 2000))) = Inr (lit ''b 8 on 2000'')"
  "wire_format pin_b8 (On (Some (PyInt (- 5)))) = Inr (lit ''b 8 on -5'')"
  "wire_format pin_b8 (On None) = Inr (lit ''b 8 on 0'')"
  "wire_format pin_b8 Blink = Inr (lit ''b 8 blink 0'')"
  "wire_format pin_b8 Pulse = Inr (lit ''b 8 pulse 0'')"
  "wire_format pin_b8 Off = Inr (lit ''b 8 off 0'')"
  by (simp_all add: wire_format_def action_name_def time_token_def pin_b8_def str_int_small
      lit_def)

lemma perform_surrogate:
  "format_val (time_token a) = Inr ts \<Longrightarrow>
   perform a pin_surrogate w = (Inl UnicodeEncodeError, w)"
  by (simp add: perform_eq wire_format_def pin_surrogate_def str_int_small utf8_char_def)

lemma perform_huge: "perform a pin_huge w = (Inl ValueError, w)"
  by (simp add: perform_eq wire_format_def pin_huge_def str_int_huge)

text \<open>The calls of the example script on \<open>pin(8, 'b')\<close>, on a connected socket.\<close>

lemma perform_example:
  assumes "status (socks w 0) = Connected"
  shows "perform (On (Some (PyInt 2000))) pin_b8 w =
           (Inr pin_b8, append_sent 0 [98, 32, 56, 32, 111, 110, 32, 50, 48, 48, 48] w)"
    and "perform Blink pin_b8 w =
           (Inr pin_b8, append_sent 0 [98, 32, 56, 32, 98, 108, 105, 110, 107, 32, 48] w)"
    and "perform (On None) pin_b8 w =
           (Inr pin_b8, append_sent 0 [98, 32, 56, 32, 111, 110, 32, 48] w)"
    and "perform Off pin_b8 w =
           (Inr pin_b8, append_sent 0 [98, 32, 56, 32, 111, 102, 102, 32, 48] w)"
proof -
  have s: "RemotePin.client_socket pin_b8 = 0" by (simp add: pin_b8_def)
  show "perform (On (Some (PyInt 2000))) pin_b8 w =
           (Inr pin_b8, append_sent 0 [98, 32, 56, 32, 111, 110, 32, 50, 48, 48, 48] w)"
    and "perform Blink pin_b8 w =
           (Inr pin_b8, append_sent 0 [98, 32, 56, 32, 98, 108, 105, 110, 107, 32, 48] w)"
    and "perform (On None) pin_b8 w =
           (Inr pin_b8, append_sent 0 [98, 32, 56, 32, 111, 110, 32, 48] w)"
    and "perform Off pin_b8 w =
           (Inr pin_b8, append_sent 0 [98, 32, 56, 32, 111, 102, 102, 32, 48] w)"
    using assms
    by (simp_all add: perform_eq wire_format_b8 s lit_def utf8_char_def)
qed

section \<open>The claims\<close>

text \<open>
  C1, as stated, fails for some numbering strings and some integers. On the open
  connection of the example, \<open>on(2000)\<close> on the handle of \<open>pin(8, '\ud800')\<close> raises
  \<open>UnicodeEncodeError\<close>, and \<open>on(10 ** 4300)\<close> on the handle of \<open>pin(8, 'b')\<close> raises
  \<open>ValueError\<close>; in both cases nothing is sent.
\<close>

theorem on_raises_counterexample:
  "status (socks connected_world 0) = Connected
   \<and> int_max_str_digits = 4300
   \<and> on pin_surrogate (Some (PyInt 2000)) connected_world =
       (Inl UnicodeEncodeError, connected_world)
   \<and> on pin_b8 (Some (PyInt (10 ^ int_max_str_digits))) connected_world =
       (Inl ValueError, connected_world)"
proof -
  have "format_val (time_token (On (Some (PyInt 2000)))) = Inr (lit ''2000'')"
    by (simp add: time_token_def str_int_small)
  then have a: "perform (On (Some (PyInt 2000))) pin_surrogate connected_world =
      (Inl UnicodeEncodeError, connected_world)"
    by (rule perform_surrogate)
  have "wire_format pin_b8 (On (Some (PyInt (10 ^ int_max_str_digits)))) = Inl ValueError"
    by (simp add: wire_format_def time_token_def pin_b8_def str_int_small str_int_huge)
  then have b: "perform (On (Some (PyInt (10 ^ int_max_str_digits)))) pin_b8 connected_world =
      (Inl ValueError, connected_world)"
    by (simp only: perform_eq sum.case)
  have c: "status (socks connected_world 0) = Connected"
    by (simp add: connected_world_def)
  have d: "int_max_str_digits = 4300" by (simp only: int_max_str_digits_def)
  from a b have "on pin_surrogate (Some (PyInt 2000)) connected_world =
       (Inl UnicodeEncodeError, connected_world)
     \<and> on pin_b8 (Some (PyInt (10 ^ int_max_str_digits))) connected_world =
       (Inl ValueError, connected_world)"
    by (simp only: perform.simps)
  with c d show ?thesis by blast
qed

text \<open>
  C1, amended. On a connected socket, for every numbering string that has an
  encoding and every integer pin number and integer \<open>time_ms\<close> of at most 4300 digits
  each, \<open>on(time_ms)\<close> returns the handle and changes the world in one place only:
  the stream of the handle's socket grows by exactly the encoding of
  \<open>"<numbering> <pin_number> on <time_ms>"\<close> (both numbers in decimal); \<open>on()\<close> is
  \<open>on(0)\<close>.
\<close>

theorem on_sends_wire_string:
  assumes "status (socks w (RemotePin.client_socket p)) = Connected"
    and "numbering p = PyStr num" and "pin_number p = PyInt n"
    and "encode num = Inr nb"
    and "length (digits (nat \<bar>n\<bar>)) \<le> int_max_str_digits"
    and "length (digits (nat \<bar>t\<bar>)) \<le> int_max_str_digits"
  shows "(\<exists>bs. encode (num @ lit '' '' @ decimal n @ lit '' on '' @ decimal t) = Inr bs
            \<and> on p (Some (PyInt t)) w =
                (Inr p,
                 w\<lparr>socks := (socks w)(RemotePin.client_socket p :=
                      (socks w (RemotePin.client_socket p))
                        \<lparr>sent := sent (socks w (RemotePin.client_socket p)) @ bs\<rparr>)\<rparr>))
         \<and> on p None w = on p (Some (PyInt 0)) w"
proof -
  let ?rest = "lit '' '' @ decimal n @ lit '' on '' @ decimal t"
  have ascii: "list_all (\<lambda>c. c < 128) ?rest"
    by (simp add: decimal_ascii lit_def)
  have enc: "encode (num @ ?rest) = Inr (nb @ map of_nat ?rest)"
    by (rule encode_wire_string [OF assms(4) ascii])
  have wf: "wire_format p (On (Some (PyInt t))) = Inr (num @ ?rest)"
    by (simp add: wire_format_def action_name_def time_token_def assms(2,3)
        str_int_fits [OF assms(5)] str_int_fits [OF assms(6)] lit_def)
  have "on p (Some (PyInt t)) w = perform (On (Some (PyInt t))) p w" by simp
  also have "\<dots> = (Inr p, append_sent (RemotePin.client_socket p) (nb @ map of_nat ?rest) w)"
    by (simp only: perform_eq wf enc assms(1) sum.case sock_status.case)
  finally have sent: "on p (Some (PyInt t)) w =
      (Inr p,
       w\<lparr>socks := (socks w)(RemotePin.client_socket p :=
            (socks w (RemotePin.client_socket p))
              \<lparr>sent := sent (socks w (RemotePin.client_socket p)) @ nb @ map of_nat ?rest\<rparr>)\<rparr>)"
    by (simp only: append_sent_def)
  have dflt: "on p None w = on p (Some (PyInt 0)) w"
    by (simp add: on_def)
  from enc sent dflt show ?thesis by blast
qed

theorem on_sends_wire_string_witness:
  "status (socks connected_world (RemotePin.client_socket pin_b8)) = Connected
   \<and> numbering pin_b8 = PyStr (lit ''b'') \<and> pin_number pin_b8 = PyInt 8
   \<and> encode (lit ''b'') = Inr [98]
   \<and> length (digits (nat \<bar>8\<bar>)) \<le> int_max_str_digits
   \<and> length (digits (nat \<bar>2000\<bar>)) \<le> int_max_str_digits
   \<and> encode (lit ''b 8 on 2000'') = Inr [98, 32, 56, 32, 111, 110, 32, 50, 48, 48, 48]
   \<and> sent (socks connected_world 0) = []
   \<and> fst (on pin_b8 (Some (PyInt 2000)) connected_world) = Inr pin_b8
   \<and> sent (socks (snd (on pin_b8 (Some (PyInt 2000)) connected_world)) 0) =
       [98, 32, 56, 32, 111, 110, 32, 50, 48, 48, 48]
   \<and> sent (socks (snd (on pin_b8 None connected_world)) 0) =
       [98, 32, 56, 32, 111, 110, 32, 48]"
proof -
  have h1: "status (socks connected_world (RemotePin.client_socket pin_b8)) = Connected"
    by (simp add: connected_world_def pin_b8_def)
  have h2: "numbering pin_b8 = PyStr (lit ''b'')" and h3: "pin_number pin_b8 = PyInt 8"
    by (simp_all add: pin_b8_def)
  have h4: "encode (lit ''b'') = Inr [98]"
    by (simp add: lit_def utf8_char_def)
  have h5: "length (digits (nat \<bar>8\<bar>)) \<le> int_max_str_digits"
    and h6: "length (digits (nat \<bar>2000\<bar>)) \<le> int_max_str_digits"
    and h7: "length (digits (nat \<bar>0\<bar>)) \<le> int_max_str_digits"
    by (simp_all add: digits.simps int_max_str_digits_def)
  have e: "encode (lit ''b'' @ lit '' '' @ decimal 8 @ lit '' on '' @ decimal 2000) =
      Inr [98, 32, 56, 32, 111, 110, 32, 50, 48, 48, 48]"
    and e0: "encode (lit ''b'' @ lit '' '' @ decimal 8 @ lit '' on '' @ decimal 0) =
      Inr [98, 32, 56, 32, 111, 110, 32, 48]"
    and l: "encode (lit ''b 8 on 2000'') = Inr [98, 32, 56, 32, 111, 110, 32, 50, 48, 48, 48]"
    by (simp_all add: lit_def utf8_char_def decimal_def digits.simps)
  have s: "RemotePin.client_socket pin_b8 = 0" by (simp add: pin_b8_def)
  have s0: "sent (socks connected_world 0) = []" by (simp add: connected_world_def)
  from on_sends_wire_string [OF h1 h2 h3 h4 h5 h6] on_sends_wire_string [OF h1 h2 h3 h4 h5 h7]
    h1 h2 h3 h4 h5 h6 e e0 l s s0
  show ?thesis by simp
qed

text \<open>
  C2, as stated, fails for some numbering strings and some pin numbers. On the open
  connection of the example, \<open>blink()\<close>, \<open>pulse()\<close> and \<open>off()\<close> on the handle of
  \<open>pin(8, '\ud800')\<close> raise \<open>UnicodeEncodeError\<close>, and on the handle of
  \<open>pin(10 ** 4300, 'b')\<close> they raise \<open>ValueError\<close>; nothing is sent.
\<close>

theorem blink_pulse_off_raise_counterexample:
  "status (socks connected_world 0) = Connected
   \<and> blink pin_surrogate connected_world = (Inl UnicodeEncodeError, connected_world)
   \<and> pulse pin_surrogate connected_world = (Inl UnicodeEncodeError, connected_world)
   \<and> off pin_surrogate connected_world = (Inl UnicodeEncodeError, connected_world)
   \<and> blink pin_huge connected_world = (Inl ValueError, connected_world)
   \<and> pulse pin_huge connected_world = (Inl ValueError, connected_world)
   \<and> off pin_huge connected_world = (Inl ValueError, connected_world)"
proof -
  have t: "format_val (time_token Blink) = Inr (lit ''0'')"
    "format_val (time_token Pulse) = Inr (lit ''0'')"
    "format_val (time_token Off) = Inr (lit ''0'')"
    by (simp_all add: time_token_def str_int_small)
  have c: "status (socks connected_world 0) = Connected"
    by (simp add: connected_world_def)
  from perform_surrogate [OF t(1), of connected_world]
    perform_surrogate [OF t(2), of connected_world]
    perform_surrogate [OF t(3), of connected_world]
    perform_huge [of Blink connected_world] perform_huge [of Pulse connected_world]
    perform_huge [of Off connected_world] c
  show ?thesis by simp
qed

text \<open>
  C2, amended. On a connected socket, for every numbering string that has an
  encoding and every integer pin number of at most 4300 digits, \<open>blink()\<close>, \<open>pulse()\<close>
  and \<open>off()\<close> each return the handle and change the world in one place only: the
  stream of the handle's socket grows by exactly the encoding of
  \<open>"<numbering> <pin_number> <action> 0"\<close>. The methods take no time argument, and the
  handle \<open>p\<close> is arbitrary, whatever its \<open>time_ms\<close> field holds.
\<close>

theorem blink_pulse_off_send_zero:
  assumes "status (socks w (RemotePin.client_socket p)) = Connected"
    and "numbering p = PyStr num" and "pin_number p = PyInt n"
    and "encode num = Inr nb"
    and "length (digits (nat \<bar>n\<bar>)) \<le> int_max_str_digits"
  shows "(\<exists>bs. encode (num @ lit '' '' @ decimal n @ lit '' blink 0'') = Inr bs
            \<and> blink p w =
                (Inr p,
                 w\<lparr>socks := (socks w)(RemotePin.client_socket p :=
                      (socks w (RemotePin.client_socket p))
                        \<lparr>sent := sent (socks w (RemotePin.client_socket p)) @ bs\<rparr>)\<rparr>))
       \<and> (\<exists>bs. encode (num @ lit '' '' @ decimal n @ lit '' pulse 0'') = Inr bs
            \<and> pulse p w =
                (Inr p,
                 w\<lparr>socks := (socks w)(RemotePin.client_socket p :=
                      (socks w (RemotePin.client_socket p))
                        \<lparr>sent := sent (socks w (RemotePin.client_socket p)) @ bs\<rparr>)\<rparr>))
       \<and> (\<exists>bs. encode (num @ lit '' '' @ decimal n @ lit '' off 0'') = Inr bs
            \<and> off p w =
                (Inr p,
                 w\<lparr>socks := (socks w)(RemotePin.client_socket p :=
                      (socks w (RemotePin.client_socket p))
                        \<lparr>sent := sent (socks w (RemotePin.client_socket p)) @ bs\<rparr>)\<rparr>))"
proof -
  have sent: "perform a p w =
      (Inr p,
       w\<lparr>socks := (socks w)(RemotePin.client_socket p :=
            (socks w (RemotePin.client_socket p))
              \<lparr>sent := sent (socks w (RemotePin.client_socket p)) @ nb @ map of_nat rest\<rparr>)\<rparr>)
      \<and> encode (num @ rest) = Inr (nb @ map of_nat rest)"
    if wf: "wire_format p a = Inr (num @ rest)" and ascii: "list_all (\<lambda>c. c < 128) rest"
    for a rest
  proof -
    have enc: "encode (num @ rest) = Inr (nb @ map of_nat rest)"
      by (rule encode_wire_string [OF assms(4) ascii])
    have "perform a p w =
        (Inr p, append_sent (RemotePin.client_socket p) (nb @ map of_nat rest) w)"
      by (simp only: perform_eq wf enc assms(1) sum.case sock_status.case)
    with enc show ?thesis by (simp only: append_sent_def)
  qed
  have b: "wire_format p Blink = Inr (num @ lit '' '' @ decimal n @ lit '' blink 0'')"
    and pu: "wire_format p Pulse = Inr (num @ lit '' '' @ decimal n @ lit '' pulse 0'')"
    and o: "wire_format p Off = Inr (num @ lit '' '' @ decimal n @ lit '' off 0'')"
    by (simp_all add: wire_format_def action_name_def time_token_def assms(2,3)
        str_int_fits [OF assms(5)] str_int_small lit_def)
  have ab: "list_all (\<lambda>c. c < 128) (lit '' '' @ decimal n @ lit '' blink 0'')"
    and ap: "list_all (\<lambda>c. c < 128) (lit '' '' @ decimal n @ lit '' pulse 0'')"
    and ao: "list_all (\<lambda>c. c < 128) (lit '' '' @ decimal n @ lit '' off 0'')"
    by (simp_all add: decimal_ascii lit_def)
  from sent [OF b ab] sent [OF pu ap] sent [OF o ao] show ?thesis
    by simp
qed

theorem blink_pulse_off_send_zero_witness:
  "status (socks connected_world (RemotePin.client_socket pin_b8)) = Connected
   \<and> encode (lit ''b'') = Inr [98]
   \<and> length (digits (nat \<bar>8\<bar>)) \<le> int_max_str_digits
   \<and> sent (socks connected_world 0) = []
   \<and> fst (blink pin_b8 connected_world) = Inr pin_b8
   \<and> sent (socks (snd (blink pin_b8 connected_world)) 0) =
       [98, 32, 56, 32, 98, 108, 105, 110, 107, 32, 48]
   \<and> fst (pulse pin_b8 connected_world) = Inr pin_b8
   \<and> sent (socks (snd (pulse pin_b8 connected_world)) 0) =
       [98, 32, 56, 32, 112, 117, 108, 115, 101, 32, 48]
   \<and> fst (off pin_b8 connected_world) = Inr pin_b8
   \<and> sent (socks (snd (off pin_b8 connected_world)) 0) =
       [98, 32, 56, 32, 111, 102, 102, 32, 48]"
proof -
  have h1: "status (socks connected_world (RemotePin.client_socket pin_b8)) = Connected"
    by (simp add: connected_world_def pin_b8_def)
  have h2: "numbering pin_b8 = PyStr (lit ''b'')" and h3: "pin_number pin_b8 = PyInt 8"
    by (simp_all add: pin_b8_def)
  have h4: "encode (lit ''b'') = Inr [98]"
    by (simp add: lit_def utf8_char_def)
  have h5: "length (digits (nat \<bar>8\<bar>)) \<le> int_max_str_digits"
    by (simp add: digits.simps int_max_str_digits_def)
  have e1: "encode (lit ''b'' @ lit '' '' @ decimal 8 @ lit '' blink 0'') =
      Inr [98, 32, 56, 32, 98, 108, 105, 110, 107, 32, 48]"
    and e2: "encode (lit ''b'' @ lit '' '' @ decimal 8 @ lit '' pulse 0'') =
      Inr [98, 32, 56, 32, 112, 117, 108, 115, 101, 32, 48]"
    and e3: "encode (lit ''b'' @ lit '' '' @ decimal 8 @ lit '' off 0'') =
      Inr [98, 32, 56, 32, 111, 102, 102, 32, 48]"
    by (simp_all add: lit_def utf8_char_def decimal_def digits.simps)
  have s: "RemotePin.client_socket pin_b8 = 0" by (simp add: pin_b8_def)
  have s0: "sent (socks connected_world 0) = []" by (simp add: connected_world_def)
  from blink_pulse_off_send_zero [OF h1 h2 h3 h4 h5] h1 h4 h5 e1 e2 e3 s s0 show ?thesis
    by simp
qed

text \<open>
  C3, as stated, fails. The bytes are the UTF-8 encoding of the wire string, not an
  ASCII encoding: for the numbering \<open>U+00E9\<close> the eight-character wire string is sent
  as nine bytes, the first two \<open>0xC3 0xA9\<close>, and the string has no ASCII encoding. And
  not every action transmits: with a pin number of 4301 digits there is no wire
  string, and with a surrogate in the numbering the wire string has no encoding.
\<close>

theorem wire_bytes_not_ascii_counterexample:
  "wire_format pin_accent (On None) = Inr [233, 32, 56, 32, 111, 110, 32, 48]
   \<and> sent (socks connected_world 0) = []
   \<and> fst (on pin_accent None connected_world) = Inr pin_accent
   \<and> sent (socks (snd (on pin_accent None connected_world)) 0) =
       [195, 169, 32, 56, 32, 111, 110, 32, 48]
   \<and> ascii_encode [233, 32, 56, 32, 111, 110, 32, 48] = Inl UnicodeEncodeError
   \<and> on pin_huge None connected_world = (Inl ValueError, connected_world)
   \<and> on pin_surrogate None connected_world = (Inl UnicodeEncodeError, connected_world)"
proof -
  have wf: "wire_format pin_accent (On None) = Inr [233, 32, 56, 32, 111, 110, 32, 48]"
    by (simp add: wire_format_def action_name_def time_token_def pin_accent_def lit_def
        str_int_small)
  have enc: "encode [233, 32, 56, 32, 111, 110, 32, 48] =
      Inr [195, 169, 32, 56, 32, 111, 110, 32, 48]"
    by (simp add: utf8_char_def)
  have st: "status (socks connected_world 0) = Connected"
    and s: "RemotePin.client_socket pin_accent = 0"
    and s0: "sent (socks connected_world 0) = []"
    by (simp_all add: connected_world_def pin_accent_def)
  have "perform (On None) pin_accent connected_world =
      (Inr pin_accent, append_sent 0 [195, 169, 32, 56, 32, 111, 110, 32, 48] connected_world)"
    by (simp only: perform_eq wf enc st s sum.case sock_status.case)
  then have run: "on pin_accent None connected_world =
      (Inr pin_accent, append_sent 0 [195, 169, 32, 56, 32, 111, 110, 32, 48] connected_world)"
    by simp
  have asc: "ascii_encode [233, 32, 56, 32, 111, 110, 32, 48] = Inl UnicodeEncodeError"
    by simp
  have t0: "format_val (time_token (On None)) = Inr (lit ''0'')"
    by (simp add: time_token_def str_int_small)
  from perform_huge [of "On None" connected_world]
    perform_surrogate [OF t0, of connected_world] wf run asc s0
  show ?thesis by (simp add: append_sent_def)
qed

text \<open>
  C3, amended. On a connected socket, for every action whose time token is an integer
  (the argument of \<open>on\<close>, or the default 0), whose wire string exists (no integer in
  it has more than 4300 digits) and has an encoding (no surrogate in it), the call
  returns the handle and the stream grows by exactly the UTF-8 encoding of the wire
  string and by nothing else: the bytes end with the decimal digits of the time
  token, so the last byte is a digit and no newline, delimiter or terminator follows.
  When every character of the wire string is ASCII, these bytes are its ASCII
  encoding.
\<close>

theorem wire_bytes_utf8_no_terminator:
  assumes "status (socks w (RemotePin.client_socket p)) = Connected"
    and "time_token a = PyInt t"
    and "wire_format p a = Inr s"
    and "encode s = Inr bs"
  shows "fst (perform a p w) = Inr p
       \<and> sent (socks (snd (perform a p w)) (RemotePin.client_socket p)) =
           sent (socks w (RemotePin.client_socket p)) @ bs
       \<and> (\<exists>pre. bs = pre @ map of_nat (decimal t))
       \<and> 48 \<le> unat (last bs) \<and> unat (last bs) \<le> 57
       \<and> (list_all (\<lambda>c. c < 128) s \<longrightarrow> ascii_encode s = Inr bs)"
proof -
  have run: "perform a p w = (Inr p, append_sent (RemotePin.client_socket p) bs w)"
    by (simp only: perform_eq assms sum.case sock_status.case)
  then have ret: "fst (perform a p w) = Inr p" by simp
  from run have log: "sent (socks (snd (perform a p w)) (RemotePin.client_socket p)) =
      sent (socks w (RemotePin.client_socket p)) @ bs"
    by (simp add: append_sent_def)
  from assms(3) have "format_val (time_token a) \<noteq> Inl ValueError"
    by (auto simp: wire_format_def split: sum.splits)
  with assms(2) have ts: "str_int t = Inr (decimal t)"
    by (simp add: str_int_def split: if_splits)
  from assms(3) obtain head where "s = head @ decimal t"
    by (auto simp: wire_format_def assms(2) ts split: sum.splits)
  with assms(4) have "encode (head @ decimal t) = Inr bs" by simp
  then obtain pre where pre: "bs = pre @ map of_nat (decimal t)"
    using encode_ascii_suffix [OF _ decimal_ascii] by blast
  have ne: "decimal t \<noteq> []" by (rule decimal_nonempty)
  then have "last bs = of_nat (last (decimal t))"
    by (simp add: pre last_map)
  moreover have "48 \<le> last (decimal t) \<and> last (decimal t) \<le> 57"
    by (rule last_decimal)
  ultimately have digit: "48 \<le> unat (last bs) \<and> unat (last bs) \<le> 57"
    by (simp add: unat_byte_of_nat)
  have ascii: "ascii_encode s = Inr bs" if "list_all (\<lambda>c. c < 128) s"
    using that assms(4) by (simp add: ascii_encode_eq encode_ascii)
  from ret log pre digit ascii show ?thesis by blast
qed

theorem wire_bytes_utf8_no_terminator_witness:
  "status (socks connected_world (RemotePin.client_socket pin_accent)) = Connected
   \<and> time_token (On None) = PyInt 0
   \<and> wire_format pin_accent (On None) = Inr [233, 32, 56, 32, 111, 110, 32, 48]
   \<and> encode [233, 32, 56, 32, 111, 110, 32, 48] = Inr [195, 169, 32, 56, 32, 111, 110, 32, 48]
   \<and> sent (socks connected_world 0) = []
   \<and> fst (perform (On None) pin_accent connected_world) = Inr pin_accent
   \<and> sent (socks (snd (perform (On None) pin_accent connected_world)) 0) =
       [195, 169, 32, 56, 32, 111, 110, 32, 48]
   \<and> unat (last [195, 169, 32, 56, 32, 111, 110, 32, 48 :: byte]) = 48
   \<and> wire_format pin_b8 (On None) = Inr [98, 32, 56, 32, 111, 110, 32, 48]
   \<and> list_all (\<lambda>c. c < 128) [98, 32, 56, 32, 111, 110, 32, 48 :: nat]
   \<and> encode [98, 32, 56, 32, 111, 110, 32, 48] = Inr [98, 32, 56, 32, 111, 110, 32, 48]
   \<and> ascii_encode [98, 32, 56, 32, 111, 110, 32, 48] = Inr [98, 32, 56, 32, 111, 110, 32, 48]"
proof -
  have st: "status (socks connected_world (RemotePin.client_socket pin_accent)) = Connected"
    and st': "status (socks connected_world (RemotePin.client_socket pin_b8)) = Connected"
    and s: "RemotePin.client_socket pin_accent = 0"
    and s0: "sent (socks connected_world 0) = []"
    by (simp_all add: connected_world_def pin_accent_def pin_b8_def)
  have tt: "time_token (On None) = PyInt 0" by (simp add: time_token_def)
  have wf: "wire_format pin_accent (On None) = Inr [233, 32, 56, 32, 111, 110, 32, 48]"
    by (simp add: wire_format_def action_name_def time_token_def pin_accent_def lit_def
        str_int_small)
  have enc: "encode [233, 32, 56, 32, 111, 110, 32, 48] =
      Inr [195, 169, 32, 56, 32, 111, 110, 32, 48]"
    by (simp add: utf8_char_def)
  have wf': "wire_format pin_b8 (On None) = Inr [98, 32, 56, 32, 111, 110, 32, 48]"
    by (simp add: wire_format_b8 lit_def)
  have enc': "encode [98, 32, 56, 32, 111, 110, 32, 48] = Inr [98, 32, 56, 32, 111, 110, 32, 48]"
    by (simp add: utf8_char_def)
  have asc: "list_all (\<lambda>c. c < 128) [98, 32, 56, 32, 111, 110, 32, 48 :: nat]"
    by simp
  from wire_bytes_utf8_no_terminator [OF st tt wf enc]
    wire_bytes_utf8_no_terminator [OF st' tt wf' enc'] st tt wf enc wf' enc' asc s s0
  show ?thesis by simp
qed

text \<open>
  C4. \<open>pin(pin_number, numbering)\<close> is construction only: for every server object,
  every value of \<open>pin_number\<close> and \<open>numbering\<close> (of either kind) and every world, it
  returns normally, leaves the world as it was, and the handle holds the server's
  socket and the two values as given; \<open>numbering\<close> left out is \<open>'b'\<close>.
\<close>

theorem pin_is_pure_construction:
  "pin srv n (Some num) w =
     (Inr \<lparr>RemotePin.client_socket = RemoteServer.client_socket srv, pin_number = n,
           numbering = num, time_ms = PyInt 0\<rparr>, w)
   \<and> pin srv n None w = pin srv n (Some (PyStr (lit ''b''))) w"
  by (simp add: pin_def RemotePin_init_def)



text \<open>
  C6, as stated, fails: when the handshake to \<open>203.0.113.1:9999\<close> times out, the
  constructor fails with the \<open>OSError\<close> of \<open>connect\<close> itself, not with a distinct
  error wrapping it as the open contract of the specification has it.
\<close>

theorem open_not_wrapped_counterexample:
  "net example_world (lit ''203.0.113.1'', 9999) = Some ETIMEDOUT
   \<and> fst (RemoteServer_init (lit ''203.0.113.1'') 9999 example_world) = Inl (OSError ETIMEDOUT)
   \<and> fst (spec_open (lit ''203.0.113.1'') 9999 example_world) =
       Inl (ConnectionError (OSError ETIMEDOUT))
   \<and> fst (RemoteServer_init (lit ''203.0.113.1'') 9999 example_world) \<noteq>
       fst (spec_open (lit ''203.0.113.1'') 9999 example_world)"
  by (simp add: spec_open_def RemoteServer_init_def socket_socket_def connect_def
      example_world_def example_net_def lit_def)

text \<open>
  C6, amended. Connecting is part of construction: when the handshake fails with
  errno \<open>e\<close>, \<open>RemoteServer(ip, port)\<close> fails with \<open>OSError e\<close> as \<open>connect\<close> raised it,
  no server object is returned, and the world holds only the fresh socket, still
  unconnected; when the handshake succeeds, the constructor returns the server object
  with its socket already connected.
\<close>

theorem open_failure_propagates_oserror:
  "(net w (ip, port) = Some e \<longrightarrow>
      RemoteServer_init ip port w = (Inl (OSError e), snd (socket_socket w)))
   \<and> (net w (ip, port) = None \<longrightarrow>
      (\<exists>srv w'. RemoteServer_init ip port w = (Inr srv, w')
         \<and> server_ip srv = ip \<and> server_port srv = port
         \<and> status (socks w' (RemoteServer.client_socket srv)) = Connected))"
  by (simp add: RemoteServer_init_def socket_socket_def connect_def)

theorem open_failure_propagates_oserror_witness:
  "net example_world (lit ''203.0.113.1'', 9999) = Some ETIMEDOUT
   \<and> RemoteServer_init (lit ''203.0.113.1'') 9999 example_world =
       (Inl (OSError ETIMEDOUT), snd (socket_socket example_world))
   \<and> net example_world (lit ''127.0.0.1'', 9000) = None
   \<and> RemoteServer_init (lit ''127.0.0.1'') 9000 example_world =
       (Inr example_server, connected_world)
   \<and> status (socks connected_world (RemoteServer.client_socket example_server)) = Connected"
proof -
  have n1: "net example_world (lit ''203.0.113.1'', 9999) = Some ETIMEDOUT"
    and n2: "net example_world (lit ''127.0.0.1'', 9000) = None"
    by (simp_all add: example_world_def example_net_def lit_def)
  have st: "status (socks connected_world (RemoteServer.client_socket example_server)) = Connected"
    by (simp add: connected_world_def example_server_def)
  from open_failure_propagates_oserror
      [of example_world "lit ''203.0.113.1''" 9999 ETIMEDOUT] n1
  have "RemoteServer_init (lit ''203.0.113.1'') 9999 example_world =
       (Inl (OSError ETIMEDOUT), snd (socket_socket example_world))" by simp
  with n1 n2 st example_open show ?thesis by simp
qed

text \<open>
  C7, as stated, fails: the wire string is built and encoded before \<open>sendall\<close> is
  called, so after \<open>close()\<close> an action on the handle of \<open>pin(8, '\ud800')\<close> fails with
  \<open>UnicodeEncodeError\<close> and an action on the handle of \<open>pin(10 ** 4300)\<close> fails with
  \<open>ValueError\<close>; neither is a transport error.
\<close>

theorem closed_not_transport_error_counterexample:
  "pin example_server (PyInt 8) (Some (PyStr [0xD800])) connected_world =
     (Inr pin_surrogate, connected_world)
   \<and> pin example_server (PyInt (10 ^ int_max_str_digits)) None connected_world =
     (Inr pin_huge, connected_world)
   \<and> close example_server connected_world = (Inr (), closed_world)
   \<and> on pin_surrogate None closed_world = (Inl UnicodeEncodeError, closed_world)
   \<and> on pin_huge None closed_world = (Inl ValueError, closed_world)"
proof -
  have t0: "format_val (time_token (On None)) = Inr (lit ''0'')"
    by (simp add: time_token_def str_int_small)
  from perform_surrogate [OF t0, of closed_world] perform_huge [of "On None" closed_world]
    example_pin_surrogate example_pin_huge example_close
  show ?thesis by simp
qed

text \<open>
  C7, amended. After \<open>close()\<close> on the server object, every action on every handle
  of its socket fails and leaves the world as it is (nothing is sent, nothing is
  retried): with \<open>OSError EBADF\<close> from \<open>sendall\<close> when the wire string exists and has
  an encoding; with \<open>UnicodeEncodeError\<close> when the wire string exists and has no
  encoding; with \<open>ValueError\<close> when there is no wire string, an integer in it having
  more than 4300 digits.
\<close>

theorem actions_fail_after_close:
  assumes "close srv w = (r, w')"
    and "RemotePin.client_socket p = RemoteServer.client_socket srv"
  shows "(\<exists>e. perform a p w' = (Inl e, w'))
       \<and> (wire_format p a = Inr s \<and> encode s = Inr bs \<longrightarrow>
            perform a p w' = (Inl (OSError EBADF), w'))
       \<and> (wire_format p a = Inr s \<and> encode s = Inl e1 \<longrightarrow>
            perform a p w' = (Inl UnicodeEncodeError, w'))
       \<and> (wire_format p a = Inl e2 \<longrightarrow> perform a p w' = (Inl ValueError, w'))"
proof -
  have closed: "status (socks w' (RemotePin.client_socket p)) = Closed"
    using assms by (auto simp: close_def socket_close_def)
  have no_string: "e = ValueError" if "wire_format p a = Inl e" for e
    using that by (auto simp: wire_format_def dest: format_val_error split: sum.splits)
  from closed show ?thesis
    by (auto simp: perform_eq dest: encode_error no_string split: sum.splits)
qed

theorem actions_fail_after_close_witness:
  "close example_server connected_world = (Inr (), closed_world)
   \<and> RemotePin.client_socket pin_b8 = RemoteServer.client_socket example_server
   \<and> wire_format pin_b8 (On None) = Inr (lit ''b 8 on 0'')
   \<and> encode (lit ''b 8 on 0'') = Inr [98, 32, 56, 32, 111, 110, 32, 48]
   \<and> perform (On None) pin_b8 closed_world = (Inl (OSError EBADF), closed_world)
   \<and> wire_format pin_surrogate Blink = Inr (55296 # lit '' 8 blink 0'')
   \<and> encode (55296 # lit '' 8 blink 0'') = Inl UnicodeEncodeError
   \<and> perform Blink pin_surrogate closed_world = (Inl UnicodeEncodeError, closed_world)
   \<and> wire_format pin_huge Off = Inl ValueError
   \<and> perform Off pin_huge closed_world = (Inl ValueError, closed_world)"
proof -
  have s: "RemotePin.client_socket pin_b8 = RemoteServer.client_socket example_server"
    and s': "RemotePin.client_socket pin_surrogate = RemoteServer.client_socket example_server"
    and s'': "RemotePin.client_socket pin_huge = RemoteServer.client_socket example_server"
    by (simp_all add: pin_b8_def pin_surrogate_def pin_huge_def example_server_def)
  have w1: "wire_format pin_b8 (On None) = Inr (lit ''b 8 on 0'')"
    by (rule wire_format_b8)
  have e1: "encode (lit ''b 8 on 0'') = Inr [98, 32, 56, 32, 111, 110, 32, 48]"
    by (simp add: lit_def utf8_char_def)
  have w2: "wire_format pin_surrogate Blink = Inr (55296 # lit '' 8 blink 0'')"
    by (simp add: wire_format_def action_name_def time_token_def pin_surrogate_def
        str_int_small lit_def)
  have e2: "encode (55296 # lit '' 8 blink 0'') = Inl UnicodeEncodeError"
    by (simp add: utf8_char_def)
  have w3: "wire_format pin_huge Off = Inl ValueError"
    by (simp add: wire_format_def pin_huge_def str_int_huge)
  from actions_fail_after_close [OF example_close s, of "On None" "lit ''b 8 on 0''"
      "[98, 32, 56, 32, 111, 110, 32, 48]"]
    actions_fail_after_close [OF example_close s', of Blink "55296 # lit '' 8 blink 0''" _
      UnicodeEncodeError]
    actions_fail_after_close [OF example_close s'', of Off _ _ _ ValueError]
    example_close s w1 e1 w2 e2 w3
  show ?thesis by simp
qed

text \<open>
  C8. No action reads the field \<open>time_ms\<close>: two handles that agree on \<open>numbering\<close> and
  \<open>pin_number\<close>, on sockets of the same status, fail or succeed alike and produce the
  same wire bytes under every action, whatever their \<open>time_ms\<close> fields hold; and
  changing the field alone changes nothing but the field of the returned handle.
\<close>

theorem stored_time_ms_never_read:
  assumes "numbering q = numbering p" and "pin_number q = pin_number p"
    and "status (socks w (RemotePin.client_socket q)) = status (socks w (RemotePin.client_socket p))"
  shows "map_sum id (\<lambda>_. ()) (fst (perform a q w)) = map_sum id (\<lambda>_. ()) (fst (perform a p w))
       \<and> appended (RemotePin.client_socket q) w (snd (perform a q w)) =
           appended (RemotePin.client_socket p) w (snd (perform a p w))
       \<and> perform a (p\<lparr>time_ms := v\<rparr>) w =
           (map_sum id (\<lambda>r. r\<lparr>time_ms := v\<rparr>) (fst (perform a p w)), snd (perform a p w))"
proof -
  have wf: "wire_format q a = wire_format p a"
    by (rule wire_format_cong [OF assms(1,2)])
  have wf': "wire_format (p\<lparr>time_ms := v\<rparr>) a = wire_format p a"
    by (rule wire_format_cong) simp_all
  show ?thesis
    using assms(3)
    by (simp add: perform_eq wf wf' appended_append_sent appended_same
        split: sum.splits sock_status.splits)
qed

theorem stored_time_ms_never_read_witness:
  "numbering (pin_b8\<lparr>time_ms := PyInt 5000\<rparr>) = numbering pin_b8
   \<and> pin_number (pin_b8\<lparr>time_ms := PyInt 5000\<rparr>) = pin_number pin_b8
   \<and> time_ms (pin_b8\<lparr>time_ms := PyInt 5000\<rparr>) \<noteq> time_ms pin_b8
   \<and> appended 0 connected_world (snd (perform Blink (pin_b8\<lparr>time_ms := PyInt 5000\<rparr>) connected_world)) =
       [98, 32, 56, 32, 98, 108, 105, 110, 107, 32, 48]
   \<and> appended 0 connected_world (snd (perform Blink pin_b8 connected_world)) =
       [98, 32, 56, 32, 98, 108, 105, 110, 107, 32, 48]"
proof -
  let ?q = "pin_b8\<lparr>time_ms := PyInt 5000\<rparr>"
  have h1: "numbering ?q = numbering pin_b8" and h2: "pin_number ?q = pin_number pin_b8"
    and h3: "status (socks connected_world (RemotePin.client_socket ?q)) =
      status (socks connected_world (RemotePin.client_socket pin_b8))"
    and d: "time_ms ?q \<noteq> time_ms pin_b8"
    and s: "RemotePin.client_socket pin_b8 = 0" "RemotePin.client_socket ?q = 0"
    by (simp_all add: pin_b8_def)
  have st: "status (socks connected_world 0) = Connected"
    by (simp add: connected_world_def)
  have b: "appended 0 connected_world (snd (perform Blink pin_b8 connected_world)) =
       [98, 32, 56, 32, 98, 108, 105, 110, 107, 32, 48]"
    by (simp add: perform_example(2) [OF st] appended_append_sent del: perform.simps)
  from stored_time_ms_never_read [OF h1 h2 h3, of Blink] h1 h2 d b s show ?thesis
    by simp
qed

text \<open>
  C9. No action and no chain of actions changes the status of any socket (so none
  closes the shared stream) or allocates a socket; and any two handles that \<open>pin()\<close>
  makes from one server object hold that server's socket.
\<close>

theorem pin_handle_never_closes_stream:
  "status (socks (snd (perform a p w)) s) = status (socks w s)
   \<and> status (socks (snd (chain acts p w)) s) = status (socks w s)
   \<and> next_ref (snd (chain acts p w)) = next_ref w
   \<and> (\<exists>h1 h2. pin srv n1 num1 w = (Inr h1, w) \<and> pin srv n2 num2 w = (Inr h2, w)
        \<and> RemotePin.client_socket h1 = RemoteServer.client_socket srv
        \<and> RemotePin.client_socket h2 = RemoteServer.client_socket srv)"
  using perform_frame [of a p w s] chain_frame [of acts p w s]
  by (simp add: pin_def RemotePin_init_def)




end
